theory Spec2Isabelle
  imports Main "HOL-Library.AList"
begin

unbundle bit_operations_syntax

section \<open>Errors, interfaces and panics\<close>

text \<open>
  The operating system's wait status of a finished process, as far as the package reads
  it: \<open>syscall.WaitStatus.ExitStatus()\<close> is the exit code of a process that exited and
  \<open>-1\<close> for one that did not (it was killed by a signal, say).
\<close>

datatype WaitStatus = Exited nat | NotExited

fun ExitStatus :: "WaitStatus \<Rightarrow> int" where
  "ExitStatus (Exited n) = int n"
| "ExitStatus NotExited = - 1"

text \<open>
  An \<open>*exec.ExitError\<close>. \<open>Sys()\<close> returns an \<open>interface{}\<close>; the type assertion
  \<open>.(syscall.WaitStatus)\<close> on it succeeds with a wait status (\<open>Some\<close>) or fails
  (\<open>None\<close>).
\<close>

datatype ExitError = ExitError (Sys: "WaitStatus option")

datatype num_err = ErrSyntax | ErrRange

text \<open>
  The dynamic values an \<open>error\<close> interface holds in this package. The interface itself
  is a \<open>go_error option\<close>: \<open>None\<close> is the nil interface, the only value for which
  \<open>err != nil\<close> is false; \<open>Some v\<close> is an interface with a dynamic type, whatever the
  value \<open>v\<close> inside (a nil map included).

  \<^item> \<open>RunError Msg Err\<close>: the package's \<open>RunError\<close> struct; \<open>Err\<close> is a pointer, nil
    when \<open>None\<close>.
  \<^item> \<open>StartError\<close>: any error of \<open>cmd.Output()\<close> that is not an \<open>*exec.ExitError\<close> (the
    process could not be started, its output could not be read).
  \<^item> \<open>NumError Func Num Err\<close>: a \<open>*strconv.NumError\<close>.
  \<^item> \<open>NotAPointer\<close>, \<open>NotAPointerToStruct\<close>, \<open>CannotPopulate name\<close>: the three
    \<open>fmt.Errorf\<close> values of \<open>Load\<close> ("not a pointer: %v", "not a pointer to a struct: %v",
    "cannot populate field %q of type %s"); the formatted text is left out.
  \<^item> \<open>ELoadError m\<close>: a \<open>LoadError\<close>, a \<open>map[string]error\<close>: \<open>None\<close> is the nil map,
    \<open>Some al\<close> a map with the entries of the association list \<open>al\<close>.
\<close>

datatype go_error =
    RunError string "ExitError option"
  | StartError string
  | NumError string string num_err
  | NotAPointer
  | NotAPointerToStruct
  | CannotPopulate string
  | ELoadError "(string \<times> go_error option) list option"

type_synonym error = "go_error option"

type_synonym LoadError = "(string \<times> error) list option"

text \<open>Run-time panics: a call that panics does not return.\<close>

datatype panic =
    IndexOutOfRange
  | NilPointerDereference
  | NotAssignable
  | WrongKind

definition index :: "'a list \<Rightarrow> int \<Rightarrow> panic + 'a" where
  \<comment> \<open>\<open>xs[i]\<close>: Go panics when the index is out of range.\<close>
  "index xs i = (if 0 \<le> i \<and> i < int (length xs) then Inr (xs ! nat i) else Inl IndexOutOfRange)"

section \<open>IsInvalidKeyError\<close>

definition IsInvalidKeyError :: "error \<Rightarrow> panic + bool" where
  "IsInvalidKeyError e =
     (case e of
        Some (RunError msg p) \<Rightarrow>
          (case p of
             None \<Rightarrow> Inl NilPointerDereference
           | Some exitError \<Rightarrow>
               (case Sys exitError of
                  Some waitStatus \<Rightarrow> Inr (ExitStatus waitStatus = 1)
                | None \<Rightarrow> Inr False))
      | _ \<Rightarrow> Inr False)"

section \<open>LoadError\<close>

definition len :: "LoadError \<Rightarrow> nat" where
  "len m = (case m of None \<Rightarrow> 0 | Some al \<Rightarrow> length al)"

definition OfField :: "LoadError \<Rightarrow> string \<Rightarrow> error" where
  \<comment> \<open>\<open>m[name]\<close>: the zero value (the nil error) for a missing key and for the nil map.\<close>
  "OfField m name =
     (case m of None \<Rightarrow> None
      | Some al \<Rightarrow> (case map_of al name of None \<Rightarrow> None | Some e \<Rightarrow> e))"

definition Any :: "LoadError \<Rightarrow> LoadError" where
  "Any m = (if len m = 0 then None else m)"

section \<open>Running git config\<close>

text \<open>
  What \<open>exec.Command("git", args...)\<close> followed by \<open>cmd.Output()\<close> gives back: the bytes
  of standard output, what was written to standard error, and the error of \<open>Output\<close>
  (nil, an \<open>*exec.ExitError\<close>, or something else). The program on the path is a function
  from the argument vector to this result; the configuration does not change while a call
  of the package runs.
\<close>

datatype cmd_error = ExitErr ExitError | OtherErr string

record cmd_result =
  Stdout :: string
  Stderr :: string
  Err :: "cmd_error option"

type_synonym git = "string list \<Rightarrow> cmd_result"

text \<open>The commands run, oldest first: each entry is the argument vector given to git.\<close>

type_synonym trace = "string list list"

record Config =
  Source :: "string list"

definition SourceDefault :: "string list" where "SourceDefault = []"
definition SourceGlobal :: "string list" where "SourceGlobal = [''--global'']"
definition SourceLocal :: "string list" where "SourceLocal = [''--local'']"
definition SourceFile :: "string \<Rightarrow> string list" where "SourceFile file = [''--file'', file]"
definition SourceBlob :: "string \<Rightarrow> string list" where "SourceBlob blob = [''--blob'', blob]"

definition Default :: Config where "Default = \<lparr>Source = SourceDefault\<rparr>"
definition Global :: Config where "Global = \<lparr>Source = SourceGlobal\<rparr>"
definition Local :: Config where "Local = \<lparr>Source = SourceLocal\<rparr>"
definition File :: "string \<Rightarrow> Config" where "File file = \<lparr>Source = SourceFile file\<rparr>"
definition Blob :: "string \<Rightarrow> Config" where "Blob blob = \<lparr>Source = SourceBlob blob\<rparr>"

text \<open>
  \<open>strings.Split(s, sep)\<close> for a separator of one byte, the only use the package makes of
  it (\<open>"\000"\<close> and \<open>","\<close>): the pieces of \<open>s\<close> between the separators, one more than
  there are separators. A byte that is not the separator joins the first piece of the rest,
  and there always is one.
\<close>

fun Split :: "string \<Rightarrow> char \<Rightarrow> string list" where
  "Split [] sep = [[]]"
| "Split (b # s) sep =
     (if b = sep then [] # Split s sep
      else (case Split s sep of piece # pieces \<Rightarrow> (b # piece) # pieces | [] \<Rightarrow> []))"

definition TrimRight :: "string \<Rightarrow> string \<Rightarrow> string" where
  \<comment> \<open>\<open>strings.TrimRight(s, cutset)\<close>: \<open>s\<close> without its trailing bytes that are in the cutset.\<close>
  "TrimRight s cutset = rev (dropWhile (\<lambda>b. b \<in> set cutset) (rev s))"

abbreviation NUL :: char where "NUL \<equiv> CHR 0x00"
abbreviation LF :: char where "LF \<equiv> CHR 0x0A"

definition get_args :: "Config \<Rightarrow> string \<Rightarrow> string list \<Rightarrow> string list" where
  \<comment> \<open>the argument vector that \<open>get\<close> builds\<close>
  "get_args c key extraArgs = [''config'', ''--get-all'', ''--null''] @ Source c @ extraArgs @ [key]"

definition get :: "git \<Rightarrow> Config \<Rightarrow> string \<Rightarrow> string list \<Rightarrow> (string list \<times> error) \<times> trace" where
  "get git c key extraArgs =
     (let args = get_args c key extraArgs;
          r = git args
      in ((case Err r of
             Some (ExitErr exitError) \<Rightarrow>
               ([], Some (RunError (TrimRight (Stderr r) [LF]) (Some exitError)))
           | Some (OtherErr e) \<Rightarrow> ([], Some (StartError e))
           | None \<Rightarrow>
               (let ss = Split (Stdout r) NUL
                in (take (length ss - 1) ss, None))),
          [args]))"

definition GetString :: "git \<Rightarrow> Config \<Rightarrow> string \<Rightarrow> (panic + string \<times> error) \<times> trace" where
  "GetString git c key =
     (case get git c key [] of
        ((values, Some e), t) \<Rightarrow> (Inr ('''', Some e), t)
      | ((values, None), t) \<Rightarrow>
          (case index values (int (length values) - 1) of
             Inl p \<Rightarrow> (Inl p, t)
           | Inr v \<Rightarrow> (Inr (v, None), t)))"

definition GetStrings :: "git \<Rightarrow> Config \<Rightarrow> string \<Rightarrow> (string list \<times> error) \<times> trace" where
  "GetStrings git c key = get git c key []"

definition GetPath :: "git \<Rightarrow> Config \<Rightarrow> string \<Rightarrow> (panic + string \<times> error) \<times> trace" where
  "GetPath git c key =
     (case get git c key [''--path''] of
        ((values, Some e), t) \<Rightarrow> (Inr ('''', Some e), t)
      | ((values, None), t) \<Rightarrow>
          (case index values (int (length values) - 1) of
             Inl p \<Rightarrow> (Inl p, t)
           | Inr v \<Rightarrow> (Inr (v, None), t)))"

definition GetPaths :: "git \<Rightarrow> Config \<Rightarrow> string \<Rightarrow> (string list \<times> error) \<times> trace" where
  "GetPaths git c key = get git c key [''--path'']"

definition GetBool :: "git \<Rightarrow> Config \<Rightarrow> string \<Rightarrow> (panic + bool \<times> error) \<times> trace" where
  "GetBool git c key =
     (case get git c key [''--bool''] of
        ((values, Some e), t) \<Rightarrow> (Inr (False, Some e), t)
      | ((values, None), t) \<Rightarrow>
          (case index values 0 of
             Inl p \<Rightarrow> (Inl p, t)
           | Inr v \<Rightarrow> (Inr (v = ''true'', None), t)))"

section \<open>strconv.ParseInt\<close>

text \<open>
  \<open>strconv.ParseInt(s, 10, 64)\<close> and the \<open>strconv.ParseUint(s, 10, 64)\<close> it calls, at the
  base and bit size of the package's only call. Unsigned 64-bit arithmetic is on \<open>nat\<close>
  with the wrap-around \<open>mod 2 ^ 64\<close> written out. The results follow the library: on a
  syntax error the value is 0; on a range error the value is the largest magnitude of the
  sign (\<open>ParseUint\<close>: \<open>2 ^ 64 - 1\<close>; \<open>ParseInt\<close>: \<open>2 ^ 63 - 1\<close> or \<open>- 2 ^ 63\<close>).
\<close>

definition lower :: "char \<Rightarrow> nat" where
  \<comment> \<open>\<open>c | ('x' - 'X')\<close>\<close>
  "lower c = (of_char c) OR 32"

definition digit :: "char \<Rightarrow> nat option" where
  \<comment> \<open>the \<open>switch\<close> on the byte in the loop of \<open>ParseUint\<close>, for a base that is not 0\<close>
  "digit c =
     (if 48 \<le> (of_char c :: nat) \<and> (of_char c :: nat) \<le> 57 then Some (of_char c - 48)
      else if 97 \<le> lower c \<and> lower c \<le> 122 then Some (lower c - 97 + 10)
      else None)"

definition maxUint64 :: nat where
  "maxUint64 = 18446744073709551615"

fun ParseUint_loop :: "string \<Rightarrow> nat \<Rightarrow> nat \<times> num_err option" where
  "ParseUint_loop [] n = (n, None)"
| "ParseUint_loop (c # s) n =
     (case digit c of
        None \<Rightarrow> (0, Some ErrSyntax)
      | Some d \<Rightarrow>
          if d \<ge> 10 then (0, Some ErrSyntax)
          else if n \<ge> maxUint64 div 10 + 1 then (maxUint64, Some ErrRange)
          else
            (let n' = (n * 10) mod 2 ^ 64;
                 n1 = (n' + d) mod 2 ^ 64
             in if n1 < n' \<or> n1 > maxUint64 then (maxUint64, Some ErrRange)
                else ParseUint_loop s n1))"

definition ParseUint :: "string \<Rightarrow> nat \<times> num_err option" where
  "ParseUint s = (if s = [] then (0, Some ErrSyntax) else ParseUint_loop s 0)"

definition int64 :: "int \<Rightarrow> int" where
  \<comment> \<open>the conversion to \<open>int64\<close>, and the value of 64-bit signed arithmetic\<close>
  "int64 x = signed_take_bit 63 x"

definition ParseInt :: "string \<Rightarrow> int \<times> error" where
  "ParseInt s0 =
     (if s0 = [] then (0, Some (NumError ''ParseInt'' s0 ErrSyntax))
      else
        (let neg = (hd s0 = CHR ''-'');
             s = (if hd s0 = CHR ''+'' \<or> hd s0 = CHR ''-'' then tl s0 else s0);
             r = ParseUint s;
             un = fst r;
             cutoff = (2 :: nat) ^ 63
         in if snd r \<noteq> None \<and> snd r \<noteq> Some ErrRange
            then (0, Some (NumError ''ParseInt'' s0 ErrSyntax))
            else if \<not> neg \<and> un \<ge> cutoff
            then (int cutoff - 1, Some (NumError ''ParseInt'' s0 ErrRange))
            else if neg \<and> un > cutoff
            then (- int cutoff, Some (NumError ''ParseInt'' s0 ErrRange))
            else (if neg then int64 (- int64 (int un)) else int64 (int un), None)))"

definition GetInt64 :: "git \<Rightarrow> Config \<Rightarrow> string \<Rightarrow> (panic + int \<times> error) \<times> trace" where
  "GetInt64 git c key =
     (case get git c key [''--int''] of
        ((values, Some e), t) \<Rightarrow> (Inr (0, Some e), t)
      | ((values, None), t) \<Rightarrow>
          (case index values 0 of
             Inl p \<Rightarrow> (Inl p, t)
           | Inr v \<Rightarrow> (Inr (ParseInt v), t)))"

section \<open>Values seen through reflection\<close>

text \<open>
  \<open>reflect.Kind\<close>, written with a leading \<open>K\<close>.
\<close>

datatype Kind =
    KInvalid | KBool
  | KInt | KInt8 | KInt16 | KInt32 | KInt64
  | KUint | KUint8 | KUint16 | KUint32 | KUint64 | KUintptr
  | KFloat32 | KFloat64 | KComplex64 | KComplex128
  | KArray | KChan | KFunc | KInterface | KMap | KPtr | KSlice | KString | KStruct
  | KUnsafePointer

datatype int_type = TInt | TInt8 | TInt16 | TInt32 | TInt64

datatype other_type =
    TUint | TUint8 | TUint16 | TUint32 | TUint64 | TUintptr
  | TFloat32 | TFloat64 | TComplex64 | TComplex128
  | TChan | TFunc | TInterface | TMap | TUnsafePointer

text \<open>
  Go values, as far as \<open>Load\<close> can tell them apart.
  \<^item> \<open>VString\<close>: a value of kind String (of type \<open>string\<close> or of a defined string type).
  \<^item> \<open>VInt ty n\<close>: a signed integer of the width of \<open>ty\<close>.
  \<^item> \<open>VSliceOfString\<close>: a slice whose element type is \<open>string\<close> itself, so that a
    \<open>[]string\<close> is assignable to it; \<open>VSliceOfNamedString\<close>: a slice whose elements are of
    a defined type of kind String (no \<open>[]string\<close> is assignable to it);
    \<open>VSliceOther\<close>: a slice of anything else. The nil slice and the empty slice are both
    the empty list.
  \<^item> \<open>VArrayOfString\<close>: an array whose elements are of kind String, its length the
    length of the list; \<open>VArrayOther n\<close>: an array of \<open>n\<close> elements of another kind.
  \<^item> \<open>VStruct\<close>: a struct with its fields in declaration order; \<open>VPtr\<close>: a pointer, nil
    when \<open>None\<close>; \<open>VOther\<close>: a value of one of the remaining kinds.
  What \<open>Load\<close> never reads or writes (the elements of \<open>VSliceOther\<close> and \<open>VArrayOther\<close>,
  the content of \<open>VOther\<close>) is left out.

  A struct field carries what \<open>reflect.StructField\<close> and the field's value give: its name,
  whether it is exported (\<open>PkgPath\<close> is empty), its tag as the list of its key-value pairs,
  and its value.
\<close>

datatype Value =
    VBool bool
  | VInt int_type int
  | VString string
  | VSliceOfString "string list"
  | VSliceOfNamedString "string list"
  | VSliceOther
  | VArrayOfString "string list"
  | VArrayOther nat
  | VStruct "StructField list"
  | VPtr "Value option"
  | VOther other_type
and StructField =
    StructField (Name: string) (Exported: bool) (Tag: "(string \<times> string) list") (Val: Value)

fun kind_of_int_type :: "int_type \<Rightarrow> Kind" where
  "kind_of_int_type TInt = KInt"
| "kind_of_int_type TInt8 = KInt8"
| "kind_of_int_type TInt16 = KInt16"
| "kind_of_int_type TInt32 = KInt32"
| "kind_of_int_type TInt64 = KInt64"

fun kind_of_other_type :: "other_type \<Rightarrow> Kind" where
  "kind_of_other_type TUint = KUint"
| "kind_of_other_type TUint8 = KUint8"
| "kind_of_other_type TUint16 = KUint16"
| "kind_of_other_type TUint32 = KUint32"
| "kind_of_other_type TUint64 = KUint64"
| "kind_of_other_type TUintptr = KUintptr"
| "kind_of_other_type TFloat32 = KFloat32"
| "kind_of_other_type TFloat64 = KFloat64"
| "kind_of_other_type TComplex64 = KComplex64"
| "kind_of_other_type TComplex128 = KComplex128"
| "kind_of_other_type TChan = KChan"
| "kind_of_other_type TFunc = KFunc"
| "kind_of_other_type TInterface = KInterface"
| "kind_of_other_type TMap = KMap"
| "kind_of_other_type TUnsafePointer = KUnsafePointer"

fun Kind_of :: "Value \<Rightarrow> Kind" where
  "Kind_of (VBool b) = KBool"
| "Kind_of (VInt ty n) = kind_of_int_type ty"
| "Kind_of (VString s) = KString"
| "Kind_of (VSliceOfString xs) = KSlice"
| "Kind_of (VSliceOfNamedString xs) = KSlice"
| "Kind_of VSliceOther = KSlice"
| "Kind_of (VArrayOfString xs) = KArray"
| "Kind_of (VArrayOther n) = KArray"
| "Kind_of (VStruct fs) = KStruct"
| "Kind_of (VPtr p) = KPtr"
| "Kind_of (VOther ty) = kind_of_other_type ty"

text \<open>
  \<open>reflect.ValueOf(v).Kind()\<close> for an \<open>interface{}\<close> (\<open>None\<close> is the nil interface, whose
  \<open>reflect.Value\<close> is the zero Value of kind Invalid), and \<open>rv.Elem()\<close> of a pointer (the
  zero Value for a nil pointer).
\<close>

definition Kind :: "Value option \<Rightarrow> Kind" where
  "Kind rv = (case rv of None \<Rightarrow> KInvalid | Some v \<Rightarrow> Kind_of v)"

definition Elem :: "Value option \<Rightarrow> Value option" where
  "Elem rv = (case rv of Some (VPtr p) \<Rightarrow> p | _ \<Rightarrow> None)"

definition Fields :: "Value option \<Rightarrow> StructField list" where
  "Fields rv = (case rv of Some (VStruct fs) \<Rightarrow> fs | _ \<Rightarrow> [])"

definition CanSet :: "StructField \<Rightarrow> bool" where
  \<comment> \<open>a field of an addressable struct can be set when it is exported\<close>
  "CanSet ft = Exported ft"

definition Tag_Get :: "(string \<times> string) list \<Rightarrow> string \<Rightarrow> string" where
  \<comment> \<open>\<open>tag.Get(key)\<close>: the value of the key, the empty string when the tag has no such key\<close>
  "Tag_Get tag key = (case map_of tag key of None \<Rightarrow> [] | Some v \<Rightarrow> v)"

definition set_Val :: "StructField \<Rightarrow> Value \<Rightarrow> StructField" where
  "set_Val ft v = StructField (Name ft) (Exported ft) (Tag ft) v"

definition bits :: "int_type \<Rightarrow> nat" where
  \<comment> \<open>\<open>int\<close> has the width of the platform, here 64 bits\<close>
  "bits ty = (case ty of TInt \<Rightarrow> 64 | TInt8 \<Rightarrow> 8 | TInt16 \<Rightarrow> 16 | TInt32 \<Rightarrow> 32 | TInt64 \<Rightarrow> 64)"

fun SetString :: "Value \<Rightarrow> string \<Rightarrow> panic + Value" where
  "SetString (VString old) s = Inr (VString s)"
| "SetString v s = Inl WrongKind"

fun SetInt :: "Value \<Rightarrow> int \<Rightarrow> panic + Value" where
  \<comment> \<open>the value is narrowed to the width of the field, with no check\<close>
  "SetInt (VInt ty old) x = Inr (VInt ty (signed_take_bit (bits ty - 1) x))"
| "SetInt v x = Inl WrongKind"

fun SetBool :: "Value \<Rightarrow> bool \<Rightarrow> panic + Value" where
  "SetBool (VBool old) b = Inr (VBool b)"
| "SetBool v b = Inl WrongKind"

fun Set_strings :: "Value \<Rightarrow> string list \<Rightarrow> panic + Value" where
  \<comment> \<open>\<open>fv.Set(ssr)\<close> for a \<open>ssr\<close> of type \<open>[]string\<close>\<close>
  "Set_strings (VSliceOfString old) ssr = Inr (VSliceOfString ssr)"
| "Set_strings v ssr = Inl NotAssignable"

fun Len :: "Value \<Rightarrow> nat" where
  "Len (VArrayOfString xs) = length xs"
| "Len (VArrayOther n) = n"
| "Len v = 0"

fun Index_SetString :: "Value \<Rightarrow> nat \<Rightarrow> string \<Rightarrow> panic + Value" where
  \<comment> \<open>\<open>fv.Index(i).SetString(s)\<close>\<close>
  "Index_SetString (VArrayOfString xs) i s =
     (if i < length xs then Inr (VArrayOfString (xs[i := s])) else Inl IndexOutOfRange)"
| "Index_SetString (VArrayOther n) i s = (if i < n then Inl WrongKind else Inl IndexOutOfRange)"
| "Index_SetString v i s = Inl WrongKind"

section \<open>Load\<close>

text \<open>
  The two loops that copy strings. For a slice field, \<open>reflect.MakeSlice\<close> makes a
  \<open>[]string\<close> of \<open>len(ss)\<close> empty strings and the \<open>range\<close> loop sets each index. For an
  array field, the loop runs while \<open>i < fv.Len() && i < len(ss)\<close>.
\<close>

definition copy_strings :: "string list \<Rightarrow> string list" where
  "copy_strings ss = fold (\<lambda>i ssr. ssr[i := ss ! i]) [0..<length ss] (replicate (length ss) [])"

function array_loop :: "nat \<Rightarrow> Value \<Rightarrow> string list \<Rightarrow> panic + Value" where
  "array_loop i fv ss =
     (if i < Len fv \<and> i < length ss
      then (case Index_SetString fv i (ss ! i) of
              Inl p \<Rightarrow> Inl p
            | Inr fv' \<Rightarrow> array_loop (Suc i) fv' ss)
      else Inr fv)"
  by pat_completeness auto
termination
  by (relation "measure (\<lambda>(i, fv, ss). length ss - i)") auto

text \<open>
  The state of the loop over the fields is the field itself (it is written through the
  pointer), the entries of the map \<open>errs\<close>, the commands run, and the panic that ended the
  call, if any. \<open>errs\<close> is made by \<open>LoadError{}\<close>, a map that is not nil, so only its entries
  are passed; \<open>errs[name] = err\<close> is \<open>AList.update\<close>.
\<close>

type_synonym entries = "(string \<times> error) list"

definition store :: "StructField \<Rightarrow> panic + Value \<Rightarrow> entries \<Rightarrow> trace \<Rightarrow>
    StructField \<times> entries \<times> trace \<times> panic option" where
  \<comment> \<open>the end of a case of the \<open>switch\<close> whose accessor succeeded: the field is set\<close>
  "store ft r errs t =
     (case r of
        Inl p \<Rightarrow> (ft, errs, t, Some p)
      | Inr fv' \<Rightarrow> (set_Val ft fv', errs, t, None))"

definition load_field :: "git \<Rightarrow> Config \<Rightarrow> StructField \<Rightarrow> entries \<Rightarrow>
    StructField \<times> entries \<times> trace \<times> panic option" where
  \<comment> \<open>the body of the \<open>for\<close> loop of \<open>Load\<close>, for the field \<open>ft\<close> with the value \<open>fv\<close>\<close>
  "load_field git c ft errs =
     (let fv = Val ft in
      if \<not> CanSet ft then (ft, errs, [], None)
      else
        let tag = Tag_Get (Tag ft) ''gitconfig'' in
        if tag = [] then (ft, errs, [], None)
        else
          let tags = Split tag (CHR '','');
              key = hd tags;
              k = Kind_of fv
          in
          if k = KString then
            (case GetString git c key of
               (Inl p, t) \<Rightarrow> (ft, errs, t, Some p)
             | (Inr (s, Some e), t) \<Rightarrow> (ft, AList.update (Name ft) (Some e) errs, t, None)
             | (Inr (s, None), t) \<Rightarrow> store ft (SetString fv s) errs t)
          else if k = KInt \<or> k = KInt8 \<or> k = KInt16 \<or> k = KInt32 \<or> k = KInt64 then
            (case GetInt64 git c key of
               (Inl p, t) \<Rightarrow> (ft, errs, t, Some p)
             | (Inr (i, Some e), t) \<Rightarrow> (ft, AList.update (Name ft) (Some e) errs, t, None)
             | (Inr (i, None), t) \<Rightarrow> store ft (SetInt fv i) errs t)
          else if k = KSlice then
            (case GetStrings git c key of
               ((ss, Some e), t) \<Rightarrow> (ft, AList.update (Name ft) (Some e) errs, t, None)
             | ((ss, None), t) \<Rightarrow> store ft (Set_strings fv (copy_strings ss)) errs t)
          else if k = KArray then
            (case GetStrings git c key of
               ((ss, Some e), t) \<Rightarrow> (ft, AList.update (Name ft) (Some e) errs, t, None)
             | ((ss, None), t) \<Rightarrow> store ft (array_loop 0 fv ss) errs t)
          else if k = KBool then
            (case GetBool git c key of
               (Inl p, t) \<Rightarrow> (ft, errs, t, Some p)
             | (Inr (b, Some e), t) \<Rightarrow> (ft, AList.update (Name ft) (Some e) errs, t, None)
             | (Inr (b, None), t) \<Rightarrow> store ft (SetBool fv b) errs t)
          else (ft, AList.update (Name ft) (Some (CannotPopulate (Name ft))) errs, [], None))"

fun load_fields :: "git \<Rightarrow> Config \<Rightarrow> StructField list \<Rightarrow> entries \<Rightarrow>
    StructField list \<times> entries \<times> trace \<times> panic option" where
  "load_fields git c [] errs = ([], errs, [], None)"
| "load_fields git c (ft # fts) errs =
     (case load_field git c ft errs of
        (ft', errs', t, Some p) \<Rightarrow> (ft' # fts, errs', t, Some p)
      | (ft', errs', t, None) \<Rightarrow>
          (case load_fields git c fts errs' of
             (fts', errs'', t', r) \<Rightarrow> (ft' # fts', errs'', t @ t', r)))"

text \<open>
  \<open>Load\<close> gives back what it returns or the panic that ended it, the argument with what
  it points to after the call, and the commands it ran. Its last statement is
  \<open>return errs.Any()\<close>: \<open>Any\<close> returns a \<open>LoadError\<close>, and the result type of \<open>Load\<close> is the
  interface \<open>error\<close>, so the returned interface holds that \<open>LoadError\<close> as its dynamic value.
\<close>

definition Load :: "git \<Rightarrow> Config \<Rightarrow> Value option \<Rightarrow> (panic + error) \<times> Value option \<times> trace" where
  "Load git c v =
     (if Kind v \<noteq> KPtr then (Inr (Some NotAPointer), v, [])
      else if Kind (Elem v) \<noteq> KStruct then (Inr (Some NotAPointerToStruct), v, [])
      else
        (case load_fields git c (Fields (Elem v)) [] of
           (fs, errs, t, Some p) \<Rightarrow> (Inl p, Some (VPtr (Some (VStruct fs))), t)
         | (fs, errs, t, None) \<Rightarrow>
             (Inr (Some (ELoadError (Any (Some errs)))), Some (VPtr (Some (VStruct fs))), t)))"

section \<open>Example stores and structs\<close>

text \<open>
  \<open>test_git\<close> answers as git does in the repository that \<open>TestMain\<close> of
  \<open>gitconfig_test.go\<close> sets up, read through the default source: a known key prints its
  values, each followed by a NUL byte, and any other key ends with exit status 1.
  \<open>silent_git\<close> is a program that prints nothing and exits with status 0. \<open>wide_git\<close>
  prints one value, the decimal numeral of \<open>2 ^ 63\<close>.
\<close>

definition succeed :: "string \<Rightarrow> cmd_result" where
  "succeed out = \<lparr>Stdout = out, Stderr = [], Err = None\<rparr>"

definition exit_status :: "nat \<Rightarrow> string \<Rightarrow> cmd_result" where
  "exit_status n msg =
     \<lparr>Stdout = [], Stderr = msg, Err = Some (ExitErr (ExitError (Some (Exited n))))\<rparr>"

definition test_git :: git where
  "test_git args =
     (let key = last args in
      if key = ''user.email''
      then succeed (''global@example.com'' @ [NUL] @ ''local@example.com'' @ [NUL])
      else if key = ''gc.auto'' then succeed (''6700'' @ [NUL])
      else if key = ''pull.rebase'' then succeed (''true'' @ [NUL])
      else if key = ''merge.ff'' then succeed (''false'' @ [NUL])
      else if key = ''ghq.root'' then succeed (''~/dev'' @ [NUL] @ ''~/go/src'' @ [NUL])
      else exit_status 1 [])"

definition silent_git :: git where
  "silent_git args = succeed []"

definition wide_git :: git where
  "wide_git args = succeed (''9223372036854775808'' @ [NUL])"

(*DEFS*)

section \<open>Splitting the output\<close>

lemma Split_not_Nil: "Split s sep \<noteq> []"
  by (induction s) (auto split: list.splits)

lemma Split_piece: "sep \<notin> set v \<Longrightarrow> Split (v @ sep # rest) sep = v # Split rest sep"
  by (induction v) auto

lemma Split_terminated:
  "\<forall>v\<in>set vs. sep \<notin> set v \<Longrightarrow> Split (concat (map (\<lambda>v. v @ [sep]) vs)) sep = vs @ [[]]"
  by (induction vs) (auto simp: Split_piece)

section \<open>The query and the typed accessors\<close>

lemma get_trace: "snd (get git c key extra) = [get_args c key extra]"
  by (simp add: get_def Let_def)

lemma get_error_nil: "get git c key extra = ((vs, Some e), t) \<Longrightarrow> vs = []"
  by (auto simp: get_def Let_def split: option.splits cmd_error.splits)

lemma get_error_kind:
  "get git c key extra = ((vs, Some e), t) \<Longrightarrow>
   (\<exists>msg exitError. e = RunError msg (Some exitError)) \<or> (\<exists>msg. e = StartError msg)"
  by (auto simp: get_def Let_def split: option.splits cmd_error.splits)

lemma get_success:
  "Err (git (get_args c key extra)) = None \<Longrightarrow>
   get git c key extra =
     ((butlast (Split (Stdout (git (get_args c key extra))) NUL), None), [get_args c key extra])"
  by (simp add: get_def Let_def butlast_conv_take)

lemma index_last: "xs \<noteq> [] \<Longrightarrow> index xs (int (length xs) - 1) = Inr (last xs)"
  by (cases xs rule: rev_cases) (auto simp: index_def nth_append)

text \<open>
  C5. When the query of a key succeeds and the store prints the values \<open>vs\<close> of the key
  (at least one, each followed by a NUL byte, in the order of their declaration),
  \<open>GetStrings\<close> returns exactly \<open>vs\<close>, in that order and with its duplicates, and
  \<open>GetString\<close> returns the last element of \<open>vs\<close>.
\<close>

theorem GetStrings_all_GetString_last:
  assumes "Err (git (get_args c key [])) = None"
    and "Stdout (git (get_args c key [])) = concat (map (\<lambda>v. v @ [NUL]) vs)"
    and "vs \<noteq> []"
    and "\<forall>v\<in>set vs. NUL \<notin> set v"
  shows "fst (GetStrings git c key) = (vs, None) \<and> fst (GetString git c key) = Inr (last vs, None)"
proof -
  have "Split (Stdout (git (get_args c key []))) NUL = vs @ [[]]"
    using assms(2,4) by (simp add: Split_terminated)
  then have g: "get git c key [] = ((vs, None), [get_args c key []])"
    using assms(1) by (simp add: get_success)
  show ?thesis
    using g assms(3) by (simp add: GetStrings_def GetString_def index_last)
qed

theorem GetStrings_all_GetString_last_witness:
  "Err (test_git (get_args Default ''user.email'' [])) = None \<and>
   Stdout (test_git (get_args Default ''user.email'' [])) =
     concat (map (\<lambda>v. v @ [NUL]) [''global@example.com'', ''local@example.com'']) \<and>
   fst (GetStrings test_git Default ''user.email'') =
     ([''global@example.com'', ''local@example.com''], None) \<and>
   fst (GetString test_git Default ''user.email'') = Inr (''local@example.com'', None)"
  using GetStrings_all_GetString_last
    [of test_git Default "''user.email''" "[''global@example.com'', ''local@example.com'']"]
  by (simp add: test_git_def succeed_def get_args_def)

text \<open>
  C6. A query that succeeds can return no value at all: for a program that exits with
  status 0 and prints nothing, \<open>get\<close> returns the empty sequence with a nil error, not an
  absent-key failure, and \<open>GetString\<close>, \<open>GetPath\<close>, \<open>GetBool\<close> and \<open>GetInt64\<close> then index
  the empty sequence and panic.
\<close>

theorem accessors_panic_on_empty_success:
  "fst (get silent_git Default ''user.email'' []) = ([], None) \<and>
   fst (GetString silent_git Default ''user.email'') = Inl IndexOutOfRange \<and>
   fst (GetPath silent_git Default ''user.email'') = Inl IndexOutOfRange \<and>
   fst (GetBool silent_git Default ''user.email'') = Inl IndexOutOfRange \<and>
   fst (GetInt64 silent_git Default ''user.email'') = Inl IndexOutOfRange"
  by (simp add: get_def GetString_def GetPath_def GetBool_def GetInt64_def silent_git_def
      succeed_def index_def)

text \<open>
  What does hold of the code: the values of a successful query are not empty as soon as
  the output has a NUL byte in it.
\<close>

lemma Split_length: "length (Split s sep) = Suc (length (filter (\<lambda>b. b = sep) s))"
  by (induction s) (auto split: list.splits)

lemma get_values_not_empty:
  assumes "Err (git (get_args c key extra)) = None"
    and "NUL \<in> set (Stdout (git (get_args c key extra)))"
  shows "fst (fst (get git c key extra)) \<noteq> []"
proof -
  have "filter (\<lambda>b. b = NUL) (Stdout (git (get_args c key extra))) \<noteq> []"
    using assms(2) by (simp add: filter_empty_conv)
  then have "1 < length (Split (Stdout (git (get_args c key extra))) NUL)"
    by (simp add: Split_length)
  then have "butlast (Split (Stdout (git (get_args c key extra))) NUL) \<noteq> []"
    by (metis length_butlast length_greater_0_conv zero_less_diff)
  then show ?thesis
    using assms(1) by (simp add: get_success)
qed

text \<open>
  C10. Claimed: on every failure each typed accessor returns the zero value of its type
  with the error. \<open>GetInt64\<close> does not: for a value that is a decimal numeral out of the
  range of \<open>int64\<close>, it returns what \<open>strconv.ParseInt\<close> returns, the nearest bound, with the
  range error.
\<close>

lemma wide_get: "get wide_git Default ''gc.auto'' [''--int''] =
   (([''9223372036854775808''], None), [get_args Default ''gc.auto'' [''--int'']])"
  by (simp add: get_def wide_git_def succeed_def)

lemma ParseInt_wide: "ParseInt ''9223372036854775808'' =
   (9223372036854775807, Some (NumError ''ParseInt'' ''9223372036854775808'' ErrRange))"
  by (simp add: ParseInt_def ParseUint_def digit_def lower_def maxUint64_def int64_def)

lemma GetInt64_wide:
  "fst (GetInt64 wide_git Default ''gc.auto'') =
     Inr (9223372036854775807, Some (NumError ''ParseInt'' ''9223372036854775808'' ErrRange))"
  by (simp add: GetInt64_def wide_get index_def ParseInt_wide)

theorem GetInt64_range_error_counterexample:
  "fst (GetInt64 wide_git Default ''gc.auto'') =
     Inr (9223372036854775807, Some (NumError ''ParseInt'' ''9223372036854775808'' ErrRange)) \<and>
   (9223372036854775807 :: int) \<noteq> 0"
  by (simp add: GetInt64_wide)

lemma ParseInt_result:
  "ParseInt s = (i, Some e) \<Longrightarrow>
     (e = NumError ''ParseInt'' s ErrSyntax \<and> i = 0) \<or>
     (e = NumError ''ParseInt'' s ErrRange \<and>
        (i = 9223372036854775807 \<or> i = - 9223372036854775808))"
  by (auto simp: ParseInt_def Let_def split: if_splits)

text \<open>
  C10, as amended. Whenever a typed accessor returns an error, \<open>GetString\<close> and \<open>GetPath\<close>
  return the empty string, \<open>GetBool\<close> returns false, \<open>GetStrings\<close> and \<open>GetPaths\<close> return
  the empty sequence, and \<open>GetInt64\<close> returns 0 unless the error is the range error of
  \<open>strconv.ParseInt\<close>, when it returns \<open>2 ^ 63 - 1\<close> or \<open>- 2 ^ 63\<close>.
\<close>

theorem accessors_value_on_error:
  "(fst (GetString git c key) = Inr (s, Some e) \<longrightarrow> s = []) \<and>
   (fst (GetPath git c key) = Inr (s, Some e) \<longrightarrow> s = []) \<and>
   (fst (GetBool git c key) = Inr (b, Some e) \<longrightarrow> b = False) \<and>
   (fst (GetStrings git c key) = (ss, Some e) \<longrightarrow> ss = []) \<and>
   (fst (GetPaths git c key) = (ss, Some e) \<longrightarrow> ss = []) \<and>
   (fst (GetInt64 git c key) = Inr (i, Some e) \<longrightarrow>
      (case e of
         NumError f n ErrRange \<Rightarrow> i = 9223372036854775807 \<or> i = - 9223372036854775808
       | _ \<Rightarrow> i = 0))"
proof (intro conjI impI)
  show "s = []" if "fst (GetString git c key) = Inr (s, Some e)"
    using that by (auto simp: GetString_def split: prod.splits option.splits sum.splits)
  show "s = []" if "fst (GetPath git c key) = Inr (s, Some e)"
    using that by (auto simp: GetPath_def split: prod.splits option.splits sum.splits)
  show "b = False" if "fst (GetBool git c key) = Inr (b, Some e)"
    using that by (auto simp: GetBool_def split: prod.splits option.splits sum.splits)
  show "ss = []" if "fst (GetStrings git c key) = (ss, Some e)"
    using that get_error_nil [of git c key "[]" ss e]
    by (cases "get git c key []") (auto simp: GetStrings_def)
  show "ss = []" if "fst (GetPaths git c key) = (ss, Some e)"
    using that get_error_nil [of git c key "[''--path'']" ss e]
    by (cases "get git c key [''--path'']") (auto simp: GetPaths_def)
  show "case e of
         NumError f n ErrRange \<Rightarrow> i = 9223372036854775807 \<or> i = - 9223372036854775808
       | _ \<Rightarrow> i = 0" if h: "fst (GetInt64 git c key) = Inr (i, Some e)"
  proof (cases "get git c key [''--int'']")
    case (Pair r t)
    obtain vs ge where r: "r = (vs, ge)" by (cases r)
    show ?thesis
    proof (cases ge)
      case (Some e')
      with h Pair r have "i = 0" "e = e'" by (auto simp: GetInt64_def)
      moreover from get_error_kind [of git c key "[''--int'']" vs e' t] Pair r Some
      have "(\<exists>msg exitError. e' = RunError msg (Some exitError)) \<or> (\<exists>msg. e' = StartError msg)"
        by simp
      ultimately show ?thesis by auto
    next
      case None
      with h Pair r obtain v where "ParseInt v = (i, Some e)"
        by (auto simp: GetInt64_def split: sum.splits)
      from ParseInt_result [OF this] show ?thesis by auto
    qed
  qed
qed

lemma absent_get: "get test_git Default ''no.such'' extra =
   (([], Some (RunError [] (Some (ExitError (Some (Exited 1)))))), [get_args Default ''no.such'' extra])"
  by (simp add: get_def test_git_def exit_status_def get_args_def TrimRight_def)

theorem accessors_value_on_error_witness:
  "fst (GetString test_git Default ''no.such'') =
     Inr ([], Some (RunError [] (Some (ExitError (Some (Exited 1)))))) \<and>
   fst (GetPath test_git Default ''no.such'') =
     Inr ([], Some (RunError [] (Some (ExitError (Some (Exited 1)))))) \<and>
   fst (GetBool test_git Default ''no.such'') =
     Inr (False, Some (RunError [] (Some (ExitError (Some (Exited 1)))))) \<and>
   fst (GetStrings test_git Default ''no.such'') =
     ([], Some (RunError [] (Some (ExitError (Some (Exited 1)))))) \<and>
   fst (GetPaths test_git Default ''no.such'') =
     ([], Some (RunError [] (Some (ExitError (Some (Exited 1)))))) \<and>
   fst (GetInt64 test_git Default ''no.such'') =
     Inr (0, Some (RunError [] (Some (ExitError (Some (Exited 1))))))"
  using accessors_value_on_error [of test_git Default "''no.such''" "[]"
      "RunError [] (Some (ExitError (Some (Exited 1))))" False "[]" 0]
  by (simp add: GetString_def GetPath_def GetBool_def GetStrings_def GetPaths_def GetInt64_def
      absent_get)

section \<open>The absent-key predicate\<close>

text \<open>
  C7. \<open>IsInvalidKeyError\<close> returns true exactly for a \<open>RunError\<close> whose process state
  records exit status 1. It returns false for an error of starting the process, for a
  \<open>RunError\<close> of a process that exited with another status or did not exit, and for what
  \<open>strconv.ParseInt\<close> returns; on the error that \<open>get\<close> returns it is true exactly when
  the process ended with exit status 1.
\<close>

theorem IsInvalidKeyError_exit_status_1:
  "(IsInvalidKeyError e = Inr True) =
     (\<exists>msg exitError waitStatus. e = Some (RunError msg (Some exitError)) \<and>
        Sys exitError = Some waitStatus \<and> ExitStatus waitStatus = 1) \<and>
   IsInvalidKeyError (Some (StartError m)) = Inr False \<and>
   IsInvalidKeyError (Some (RunError msg' (Some (ExitError (Some (Exited n)))))) = Inr (n = 1) \<and>
   IsInvalidKeyError (Some (RunError msg' (Some (ExitError (Some NotExited))))) = Inr False \<and>
   IsInvalidKeyError (snd (ParseInt s)) = Inr False \<and>
   IsInvalidKeyError (snd (fst (get git c key extra))) =
     Inr (case Err (git (get_args c key extra)) of
            Some (ExitErr exitError) \<Rightarrow>
              (case Sys exitError of Some waitStatus \<Rightarrow> ExitStatus waitStatus = 1 | None \<Rightarrow> False)
          | _ \<Rightarrow> False)"
proof (intro conjI)
  show "(IsInvalidKeyError e = Inr True) =
     (\<exists>msg exitError waitStatus. e = Some (RunError msg (Some exitError)) \<and>
        Sys exitError = Some waitStatus \<and> ExitStatus waitStatus = 1)"
    by (auto simp: IsInvalidKeyError_def split: option.splits go_error.splits)
  show "IsInvalidKeyError (snd (ParseInt s)) = Inr False"
    by (simp add: ParseInt_def Let_def IsInvalidKeyError_def)
  show "IsInvalidKeyError (snd (fst (get git c key extra))) =
     Inr (case Err (git (get_args c key extra)) of
            Some (ExitErr exitError) \<Rightarrow>
              (case Sys exitError of Some waitStatus \<Rightarrow> ExitStatus waitStatus = 1 | None \<Rightarrow> False)
          | _ \<Rightarrow> False)"
    by (simp add: get_def Let_def IsInvalidKeyError_def split: option.splits cmd_error.splits)
qed (simp_all add: IsInvalidKeyError_def)

section \<open>Kinds\<close>

lemma kind_of_int_type_neq [simp]:
  "kind_of_int_type ty \<noteq> KPtr" "kind_of_int_type ty \<noteq> KStruct"
  "kind_of_int_type ty \<noteq> KString" "kind_of_int_type ty \<noteq> KSlice"
  "kind_of_int_type ty \<noteq> KArray" "kind_of_int_type ty \<noteq> KBool"
  by (cases ty; simp)+

lemma kind_of_other_type_neq [simp]:
  "kind_of_other_type ty \<noteq> KPtr" "kind_of_other_type ty \<noteq> KStruct"
  "kind_of_other_type ty \<noteq> KString" "kind_of_other_type ty \<noteq> KSlice"
  "kind_of_other_type ty \<noteq> KArray" "kind_of_other_type ty \<noteq> KBool"
  "kind_of_other_type ty \<noteq> KInt" "kind_of_other_type ty \<noteq> KInt8"
  "kind_of_other_type ty \<noteq> KInt16" "kind_of_other_type ty \<noteq> KInt32"
  "kind_of_other_type ty \<noteq> KInt64"
  by (cases ty; simp)+

lemma Kind_of_KPtr: "(Kind_of v = KPtr) = (\<exists>p. v = VPtr p)"
  by (cases v) simp_all

lemma Kind_of_KStruct: "(Kind_of v = KStruct) = (\<exists>fs. v = VStruct fs)"
  by (cases v) simp_all

section \<open>Load: the precondition\<close>

text \<open>
  C3. For an argument that is not a pointer to a struct (the nil interface, a value that
  is no pointer, a nil pointer, a pointer to something else), \<open>Load\<close> returns an error that
  is not nil, runs no command, and leaves the argument and what it points to as they were.
\<close>

theorem Load_rejects_non_struct_pointer:
  assumes "\<not> (\<exists>fs. v = Some (VPtr (Some (VStruct fs))))"
  shows "Load git c v =
     (Inr (Some (if Kind v \<noteq> KPtr then NotAPointer else NotAPointerToStruct)), v, [])"
proof (cases "Kind v = KPtr")
  case False
  then show ?thesis by (simp add: Load_def)
next
  case True
  then obtain p where v: "v = Some (VPtr p)"
    by (cases v) (auto simp: Kind_def Kind_of_KPtr)
  with assms have "Kind (Elem v) \<noteq> KStruct"
    by (cases p) (auto simp: Kind_def Elem_def Kind_of_KStruct)
  with True show ?thesis by (simp add: Load_def)
qed

theorem Load_rejects_non_struct_pointer_witness:
  "Load test_git Default (Some (VString ''x'')) =
     (Inr (Some NotAPointer), Some (VString ''x''), []) \<and>
   Load test_git Default None = (Inr (Some NotAPointer), None, []) \<and>
   Load test_git Default
     (Some (VStruct [StructField ''UserEmail'' True [(''gitconfig'', ''user.email'')] (VString [])])) =
     (Inr (Some NotAPointer),
      Some (VStruct [StructField ''UserEmail'' True [(''gitconfig'', ''user.email'')] (VString [])]),
      []) \<and>
   Load test_git Default (Some (VPtr (Some (VInt TInt 0)))) =
     (Inr (Some NotAPointerToStruct), Some (VPtr (Some (VInt TInt 0))), []) \<and>
   Load test_git Default (Some (VPtr None)) =
     (Inr (Some NotAPointerToStruct), Some (VPtr None), [])"
  using Load_rejects_non_struct_pointer [of "Some (VString ''x'')" test_git Default]
    Load_rejects_non_struct_pointer [of None test_git Default]
    Load_rejects_non_struct_pointer
      [of "Some (VStruct [StructField ''UserEmail'' True [(''gitconfig'', ''user.email'')] (VString [])])"
        test_git Default]
    Load_rejects_non_struct_pointer [of "Some (VPtr (Some (VInt TInt 0)))" test_git Default]
    Load_rejects_non_struct_pointer [of "Some (VPtr None)" test_git Default]
  by (simp add: Kind_def)

end
